theory Spec2Isabelle
  imports Main
begin

section \<open>The Stripe webhook controller of the payments plugin\<close>

text \<open>
  A shallow embedding of \<^verbatim>\<open>StripeController\<close>
  (\<^verbatim>\<open>packages/payments-plugin/src/stripe/stripe.controller.ts\<close>).
  The controller is a single asynchronous handler, \<^verbatim>\<open>webhook\<close>, with two private
  helpers, \<^verbatim>\<open>createContext\<close> and \<^verbatim>\<open>getPaymentMethod\<close>. Every awaited call is
  sequential, so the handler is a function from the delivery and the state of the
  collaborating services to a run: the calls it made and what it wrote to the logger and to
  the response object, in order; the exception that left it, if any; and the state of the
  services afterwards.
\<close>

subsection \<open>Data\<close>

text \<open>
  The \<^verbatim>\<open>metadata\<close> property of the object of an event: missing
  (\<^verbatim>\<open>undefined\<close>), \<^verbatim>\<open>null\<close>, or a mapping from keys to strings. A payment
  intent always has a mapping; the objects of other events may have \<^verbatim>\<open>null\<close> or
  no such property.
\<close>

datatype js_metadata = MetadataUndefined | MetadataNull | Metadata "string \<rightharpoonup> string"

text \<open>
  The part of \<^verbatim>\<open>Stripe.PaymentIntent\<close> the handler reads: \<^verbatim>\<open>id\<close>,
  \<^verbatim>\<open>metadata\<close> and \<^verbatim>\<open>last_payment_error\<close> (\<open>None\<close> is \<^verbatim>\<open>null\<close> or
  \<^verbatim>\<open>undefined\<close>, which \<^verbatim>\<open>?.\<close> treats alike), with its \<^verbatim>\<open>message\<close>
  (\<open>None\<close> is \<^verbatim>\<open>undefined\<close>).
\<close>

record last_payment_error =
  lpe_message :: "string option"

record payment_intent =
  pi_id :: string
  pi_metadata :: js_metadata
  pi_last_payment_error :: "last_payment_error option"

text \<open>
  \<^verbatim>\<open>Stripe.Event\<close>: \<^verbatim>\<open>event.type\<close> and \<^verbatim>\<open>event.data.object\<close>
  (\<open>None\<close> is a falsy value, which the handler tests for).
\<close>

record event =
  ev_type :: string
  ev_object :: "payment_intent option"

record incoming_message =
  rawBody :: string

text \<open>The options given to \<^verbatim>\<open>new RequestContext\<close>.\<close>

record 'ch request_context =
  apiType :: string
  isAuthorized :: bool
  authorizedAsOwnerOnly :: bool
  channel :: 'ch
  languageCode :: string

text \<open>\<^verbatim>\<open>PaymentMethod\<close>: \<^verbatim>\<open>code\<close> and \<^verbatim>\<open>handler.code\<close>.\<close>

record configurable_operation =
  co_code :: string

record payment_method =
  pm_code :: string
  pm_handler :: configurable_operation

text \<open>
  The input of \<^verbatim>\<open>addPaymentToOrder\<close>: \<^verbatim>\<open>method\<close> and
  \<^verbatim>\<open>metadata.paymentIntentId\<close>.
\<close>

record payment_input =
  pin_method :: string
  pin_paymentIntentId :: string

text \<open>
  \<^verbatim>\<open>transitionToState\<close> returns an \<^verbatim>\<open>Order\<close> or an
  \<^verbatim>\<open>OrderStateTransitionError\<close> (with its message); \<^verbatim>\<open>addPaymentToOrder\<close>
  returns an \<^verbatim>\<open>Order\<close> or an error result (with its message).
\<close>

datatype 'o transition_result = TransitionedOrder 'o | OrderStateTransitionError string

datatype 'o add_payment_result = PaidOrder 'o | AddPaymentError string

text \<open>
  An exception leaving the handler: the \<^verbatim>\<open>InternalServerError\<close> of
  \<^verbatim>\<open>getPaymentMethod\<close>, the \<^verbatim>\<open>TypeError\<close> of a destructuring of
  \<^verbatim>\<open>null\<close>, or whatever an awaited service call threw.
\<close>

datatype fault = InternalServerError string | TypeError | ServiceFault string

datatype log_level = LogError | LogWarn | LogInfo

text \<open>Members of the \<^verbatim>\<open>HttpStatus\<close> enumeration with their numeric values.\<close>

datatype HttpStatus = OK | BAD_REQUEST | INTERNAL_SERVER_ERROR

fun status_code :: "HttpStatus \<Rightarrow> nat" where
  "status_code OK = 200"
| "status_code BAD_REQUEST = 400"
| "status_code INTERNAL_SERVER_ERROR = 500"

text \<open>
  What the handler does to the outside, in order: a call of \<^verbatim>\<open>Logger\<close> (level,
  message, logger context), a call of a service, or
  \<^verbatim>\<open>response.status(s).send(body)\<close>.
\<close>

datatype 'ch effect =
    Log log_level string string
  | ConstructEvent string string
  | GetChannelFromToken "string option"
  | TransitionToState "'ch request_context" "string option" string
  | FindPaymentMethods "'ch request_context"
  | AddPaymentToOrder "'ch request_context" "string option" payment_input
  | SendResponse HttpStatus string

text \<open>
  The injected services and the two imported constants
  (\<^verbatim>\<open>loggerCtx\<close> of \<^verbatim>\<open>./constants\<close> and \<^verbatim>\<open>stripePaymentMethodHandler.code\<close>
  of \<^verbatim>\<open>./stripe.handler\<close>), as parameters of the handler. \<open>'w\<close> is the state behind
  the services (the database). A service call that throws is \<open>Inl\<close>. The two calls of
  \<^verbatim>\<open>OrderService\<close> return the state they leave, also when they throw; the other
  calls only read.
\<close>

record ('w, 'ch, 'o) services =
  loggerCtx :: string
  handlerCode :: string
  constructEventFromPayload :: "string \<Rightarrow> string \<Rightarrow> string + event"
  getChannelFromToken :: "string option \<Rightarrow> 'w \<Rightarrow> fault + 'ch"
  transitionToState ::
    "'ch request_context \<Rightarrow> string option \<Rightarrow> string \<Rightarrow> 'w \<Rightarrow> (fault + 'o transition_result) \<times> 'w"
  findPaymentMethods :: "'ch request_context \<Rightarrow> 'w \<Rightarrow> fault + payment_method list"
  addPaymentToOrder ::
    "'ch request_context \<Rightarrow> string option \<Rightarrow> payment_input \<Rightarrow> 'w \<Rightarrow> (fault + 'o add_payment_result) \<times> 'w"

record ('w, 'ch) run =
  effects :: "'ch effect list"
  fault :: "fault option"
  world :: 'w

definition returned :: "'ch effect list \<Rightarrow> 'w \<Rightarrow> ('w, 'ch) run" where
  "returned es w = \<lparr>effects = es, fault = None, world = w\<rparr>"

definition threw :: "'ch effect list \<Rightarrow> fault \<Rightarrow> 'w \<Rightarrow> ('w, 'ch) run" where
  "threw es f w = \<lparr>effects = es, fault = Some f, world = w\<rparr>"

subsection \<open>JavaScript values\<close>

text \<open>\<^verbatim>\<open>!signature\<close> holds of \<^verbatim>\<open>undefined\<close> and of the empty string.\<close>

fun falsy :: "string option \<Rightarrow> bool" where
  "falsy None = True"
| "falsy (Some s) = (s = [])"

text \<open>A template literal renders \<^verbatim>\<open>undefined\<close> as the word.\<close>

fun js_str :: "string option \<Rightarrow> string" where
  "js_str None = ''undefined''"
| "js_str (Some s) = s"

text \<open>
  The destructuring pattern
  \<^verbatim>\<open>{ metadata: { channelToken, orderCode, orderId } = {} }\<close> of line 63 reads three
  keys of the metadata. The default \<^verbatim>\<open>{}\<close> stands in for a missing metadata
  only: the metadata \<^verbatim>\<open>null\<close> is destructured itself, which throws a
  \<^verbatim>\<open>TypeError\<close>. A missing key is \<^verbatim>\<open>undefined\<close>.
\<close>

definition metadata_of :: "payment_intent \<Rightarrow> fault + (string \<rightharpoonup> string)" where
  "metadata_of paymentIntent =
     (case pi_metadata paymentIntent of
        MetadataUndefined \<Rightarrow> Inr Map.empty
      | MetadataNull \<Rightarrow> Inl TypeError
      | Metadata m \<Rightarrow> Inr m)"

subsection \<open>The controller\<close>

definition missingHeaderErrorMessage :: string where
  "missingHeaderErrorMessage = ''Missing stripe-signature header''"

definition signatureErrorMessage :: string where
  "signatureErrorMessage = ''Error verifying Stripe webhook signature''"

definition noPaymentIntentErrorMessage :: string where
  "noPaymentIntentErrorMessage = ''No payment intent in the event payload''"

text \<open>
  \<^verbatim>\<open>createContext\<close> (lines 114 to 124): resolve the channel, then build the
  context. The call it makes is recorded with the result.
\<close>

definition createContext ::
  "('w, 'ch, 'o) services \<Rightarrow> string option \<Rightarrow> 'w \<Rightarrow> 'ch effect list \<times> (fault + 'ch request_context)"
where
  "createContext env channelToken w =
     ([GetChannelFromToken channelToken],
      case getChannelFromToken env channelToken w of
        Inl f \<Rightarrow> Inl f
      | Inr ch \<Rightarrow>
          Inr \<lparr>apiType = ''admin'', isAuthorized = True, authorizedAsOwnerOnly = False,
               channel = ch, languageCode = ''en''\<rparr>)"

text \<open>
  \<^verbatim>\<open>getPaymentMethod\<close> (lines 126 to 136): the first payment method of the list
  whose handler code is the code of the Stripe handler; none is an
  \<^verbatim>\<open>InternalServerError\<close>.
\<close>

definition getPaymentMethod ::
  "('w, 'ch, 'o) services \<Rightarrow> 'ch request_context \<Rightarrow> 'w \<Rightarrow> 'ch effect list \<times> (fault + payment_method)"
where
  "getPaymentMethod env ctx w =
     ([FindPaymentMethods ctx],
      case findPaymentMethods env ctx w of
        Inl f \<Rightarrow> Inl f
      | Inr ms \<Rightarrow>
          (case find (\<lambda>m. co_code (pm_handler m) = handlerCode env) ms of
             None \<Rightarrow>
               Inl (InternalServerError
                      (''['' @ loggerCtx env @ ''] Could not find Stripe PaymentMethod''))
           | Some method \<Rightarrow> Inr method))"

text \<open>
  \<^verbatim>\<open>webhook\<close> (lines 36 to 112). Each \<^verbatim>\<open>return\<close> of the source is a
  \<open>returned\<close>, with everything done up to there; an exception of an awaited call is
  not caught anywhere in the handler, so it is a \<open>threw\<close>.
\<close>

definition webhook ::
  "('w, 'ch, 'o) services \<Rightarrow> string option \<Rightarrow> incoming_message \<Rightarrow> 'w \<Rightarrow> ('w, 'ch) run"
where
  "webhook env signature request w =
     (if falsy signature then
        returned
          [Log LogError missingHeaderErrorMessage (loggerCtx env),
           SendResponse BAD_REQUEST missingHeaderErrorMessage] w
      else
        let sg = js_str signature;
            t0 = [ConstructEvent (rawBody request) sg]
        in
        case constructEventFromPayload env (rawBody request) sg of
          Inl e_message \<Rightarrow>
            returned
              (t0 @ [Log LogError (signatureErrorMessage @ '' '' @ sg @ '': '' @ e_message)
                       (loggerCtx env),
                     SendResponse BAD_REQUEST signatureErrorMessage]) w
        | Inr ev \<Rightarrow>
            (case ev_object ev of
               None \<Rightarrow>
                 returned
                   (t0 @ [Log LogError noPaymentIntentErrorMessage (loggerCtx env),
                          SendResponse BAD_REQUEST noPaymentIntentErrorMessage]) w
             | Some paymentIntent \<Rightarrow>
               (case metadata_of paymentIntent of
                  Inl f \<Rightarrow> threw t0 f w
                | Inr metadata \<Rightarrow>
                 let channelToken = metadata ''channelToken'';
                     orderCode = metadata ''orderCode'';
                     orderId = metadata ''orderId''
                 in
                 if ev_type ev = ''payment_intent.payment_failed'' then
                   let message =
                         (case pi_last_payment_error paymentIntent of
                            None \<Rightarrow> None
                          | Some e \<Rightarrow> lpe_message e)
                   in
                   returned
                     (t0 @ [Log LogWarn
                              (''Payment for order '' @ js_str orderCode @ '' failed: ''
                                 @ js_str message)
                              (loggerCtx env)]) w
                 else if ev_type ev \<noteq> ''payment_intent.succeeded'' then
                   returned
                     (t0 @ [Log LogInfo
                              (''Received '' @ ev_type ev @ '' status update for order ''
                                 @ js_str orderCode)
                              (loggerCtx env)]) w
                 else
                   (case createContext env channelToken w of
                      (t1, Inl f) \<Rightarrow> threw (t0 @ t1) f w
                    | (t1, Inr ctx) \<Rightarrow>
                        let t2 = t0 @ t1 @ [TransitionToState ctx orderId ''ArrangingPayment'']
                        in
                        (case transitionToState env ctx orderId ''ArrangingPayment'' w of
                           (Inl f, w1) \<Rightarrow> threw t2 f w1
                         | (Inr (OrderStateTransitionError msg), w1) \<Rightarrow>
                             returned
                               (t2 @ [Log LogError
                                        (''Error transitioning order '' @ js_str orderCode
                                           @ '' to ArrangingPayment state: '' @ msg)
                                        (loggerCtx env)]) w1
                         | (Inr (TransitionedOrder _), w1) \<Rightarrow>
                             (case getPaymentMethod env ctx w1 of
                                (t3, Inl f) \<Rightarrow> threw (t2 @ t3) f w1
                              | (t3, Inr paymentMethod) \<Rightarrow>
                                  let input = \<lparr>pin_method = pm_code paymentMethod,
                                               pin_paymentIntentId = pi_id paymentIntent\<rparr>;
                                      t4 = t2 @ t3 @ [AddPaymentToOrder ctx orderId input]
                                  in
                                  (case addPaymentToOrder env ctx orderId input w1 of
                                     (Inl f, w2) \<Rightarrow> threw t4 f w2
                                   | (Inr (AddPaymentError msg), w2) \<Rightarrow>
                                       returned
                                         (t4 @ [Log LogError
                                                  (''Error adding payment to order ''
                                                     @ js_str orderCode @ '': '' @ msg)
                                                  (loggerCtx env)]) w2
                                   | (Inr (PaidOrder _), w2) \<Rightarrow>
                                       returned
                                         (t4 @ [Log LogInfo
                                                  (''Stripe payment intent id ''
                                                     @ pi_id paymentIntent
                                                     @ '' added to order '' @ js_str orderCode)
                                                  (loggerCtx env)]) w2)))))))"

subsection \<open>Reading a run\<close>

fun is_service_call :: "'ch effect \<Rightarrow> bool" where
  "is_service_call (Log _ _ _) = False"
| "is_service_call (SendResponse _ _) = False"
| "is_service_call _ = True"

fun is_log :: "'ch effect \<Rightarrow> bool" where
  "is_log (Log _ _ _) = True"
| "is_log _ = False"

fun is_response :: "'ch effect \<Rightarrow> bool" where
  "is_response (SendResponse _ _) = True"
| "is_response _ = False"

fun is_transition :: "'ch effect \<Rightarrow> bool" where
  "is_transition (TransitionToState _ _ _) = True"
| "is_transition _ = False"

fun is_attach :: "'ch effect \<Rightarrow> bool" where
  "is_attach (AddPaymentToOrder _ _ _) = True"
| "is_attach _ = False"

text \<open>The request context a service call was given.\<close>

fun context_of :: "'ch effect \<Rightarrow> 'ch request_context option" where
  "context_of (TransitionToState ctx _ _) = Some ctx"
| "context_of (FindPaymentMethods ctx) = Some ctx"
| "context_of (AddPaymentToOrder ctx _ _) = Some ctx"
| "context_of _ = None"

text \<open>
  A verified event: the signature header is present, \<^verbatim>\<open>constructEventFromPayload\<close>
  accepted it and returned \<open>ev\<close>, \<open>ev\<close> carries the payment intent
  \<open>paymentIntent\<close>, and the metadata read from it is \<open>metadata\<close> (so the metadata
  is not \<^verbatim>\<open>null\<close>). These are the deliveries that reach the tests of the event type
  (lines 65 and 71 of the controller).
\<close>

definition verified ::
  "('w, 'ch, 'o) services \<Rightarrow> string option \<Rightarrow> incoming_message \<Rightarrow> event \<Rightarrow> payment_intent
     \<Rightarrow> (string \<rightharpoonup> string) \<Rightarrow> bool"
where
  "verified env signature request ev paymentIntent metadata \<longleftrightarrow>
     \<not> falsy signature
     \<and> constructEventFromPayload env (rawBody request) (js_str signature) = Inr ev
     \<and> ev_object ev = Some paymentIntent
     \<and> metadata_of paymentIntent = Inr metadata"

text \<open>
  The run that ends at the last line of the handler: the payment was attached, nothing was
  thrown, and the last thing done is the info-level log.
\<close>

definition run_succeeded :: "('w, 'ch) run \<Rightarrow> bool" where
  "run_succeeded r \<longleftrightarrow>
     fault r = None \<and> list_ex is_attach (effects r)
     \<and> (case last (effects r) of Log LogInfo _ _ \<Rightarrow> True | _ \<Rightarrow> False)"

subsection \<open>The contract of the order service under redelivery\<close>

text \<open>
  The controller keeps no record of the deliveries it has handled, so what a second
  delivery of the same event does is decided by \<^verbatim>\<open>OrderService\<close>, which is outside
  the controller. The specification requires its two operations to be safe to repeat. That
  requirement, for a service whose state \<open>w\<close> holds the payment records \<open>recs w\<close>
  (pairs of an order identifier and a payment intent identifier):
  \<^item> the two operations change neither what a channel token resolves to nor the list of
    payment methods;
  \<^item> a payment is attached only to an identified order, and is then on record;
  \<^item> once an order has a payment on record, a transition of this order returns (an
    order or a transition error, never an exception) and leaves the records as they are;
  \<^item> attaching a payment that is on record returns (an order or an error result)
    and leaves the records as they are.
\<close>

definition reads_stable :: "('w, 'ch, 'o) services \<Rightarrow> 'w \<Rightarrow> 'w \<Rightarrow> bool" where
  "reads_stable env w w' \<longleftrightarrow>
     (\<forall>token. getChannelFromToken env token w' = getChannelFromToken env token w)
     \<and> (\<forall>ctx. findPaymentMethods env ctx w' = findPaymentMethods env ctx w)"

definition idempotent_gateway ::
  "('w, 'ch, 'o) services \<Rightarrow> ('w \<Rightarrow> (string \<times> string) list) \<Rightarrow> bool"
where
  "idempotent_gateway env recs \<longleftrightarrow>
     (\<forall>ctx orderId target w.
        reads_stable env w (snd (transitionToState env ctx orderId target w)))
     \<and> (\<forall>ctx orderId input w.
        reads_stable env w (snd (addPaymentToOrder env ctx orderId input w)))
     \<and> (\<forall>ctx orderId input w ord w'.
        addPaymentToOrder env ctx orderId input w = (Inr (PaidOrder ord), w') \<longrightarrow>
        (\<exists>oid. orderId = Some oid \<and> (oid, pin_paymentIntentId input) \<in> set (recs w')))
     \<and> (\<forall>ctx oid pid target w.
        (oid, pid) \<in> set (recs w) \<longrightarrow>
        (\<exists>res w'. transitionToState env ctx (Some oid) target w = (Inr res, w')
                 \<and> recs w' = recs w))
     \<and> (\<forall>ctx oid input w.
        (oid, pin_paymentIntentId input) \<in> set (recs w) \<longrightarrow>
        (\<exists>res w'. addPaymentToOrder env ctx (Some oid) input w = (Inr res, w')
                 \<and> recs w' = recs w))"

subsection \<open>A shop to run the controller on\<close>

text \<open>
  A small instance of the services, for evaluating the handler on concrete deliveries: one
  channel (token \<open>t1\<close>), one order with its state and its payment records, the
  configured payment methods, and whether the order accepts the payment.
\<close>

record shop =
  order_state :: string
  payments :: "(string \<times> string) list"
  methods :: "payment_method list"
  eligible :: bool

definition stripe_method :: payment_method where
  "stripe_method = \<lparr>pm_code = ''stripe-payment'', pm_handler = \<lparr>co_code = ''stripe''\<rparr>\<rparr>"

definition other_method :: payment_method where
  "other_method = \<lparr>pm_code = ''bank-transfer'', pm_handler = \<lparr>co_code = ''manual''\<rparr>\<rparr>"

definition shop0 :: shop where
  "shop0 = \<lparr>order_state = ''AddingItems'', payments = [],
            methods = [other_method, stripe_method], eligible = True\<rparr>"

text \<open>
  The payment intent \<open>pi_123\<close> of order \<open>42\<close> (code \<open>ABC\<close>) in channel \<open>t1\<close>,
  with the listed metadata keys only.
\<close>

definition shop_metadata :: "string list \<Rightarrow> string \<rightharpoonup> string" where
  "shop_metadata keys =
     map_of (filter (\<lambda>(k, v). k \<in> set keys)
       [(''channelToken'', ''t1''), (''orderId'', ''42''), (''orderCode'', ''ABC'')])"

definition full_metadata :: "string \<rightharpoonup> string" where
  "full_metadata = shop_metadata [''channelToken'', ''orderId'', ''orderCode'']"

definition intent :: "string list \<Rightarrow> payment_intent" where
  "intent keys =
     \<lparr>pi_id = ''pi_123'',
      pi_metadata = Metadata (shop_metadata keys),
      pi_last_payment_error = Some \<lparr>lpe_message = Some ''card_declined''\<rparr>\<rparr>"

definition full_intent :: payment_intent where
  "full_intent = intent [''channelToken'', ''orderId'', ''orderCode'']"

definition good_signature :: string where
  "good_signature = ''t=1,v1=5257a8''"

text \<open>
  The stand-in for the signature check and the parser of the Stripe library: the body
  names the event type, and some bodies stand for events of other shapes: a succeeded
  event without order identifier, one without metadata and one without payment intent, a
  failed event without failure reason, and an invoice event, whose object has the metadata
  \<^verbatim>\<open>null\<close>.
\<close>

definition shop_constructEvent :: "string \<Rightarrow> string \<Rightarrow> string + event" where
  "shop_constructEvent body sg =
     (if sg \<noteq> good_signature then
        Inl ''No signatures found matching the expected signature for payload''
      else if body = ''succeeded, no orderId'' then
        Inr \<lparr>ev_type = ''payment_intent.succeeded'',
             ev_object = Some (intent [''channelToken'', ''orderCode''])\<rparr>
      else if body = ''succeeded, no metadata'' then
        Inr \<lparr>ev_type = ''payment_intent.succeeded'',
             ev_object = Some (full_intent\<lparr>pi_metadata := MetadataUndefined\<rparr>)\<rparr>
      else if body = ''succeeded, no object'' then
        Inr \<lparr>ev_type = ''payment_intent.succeeded'', ev_object = None\<rparr>
      else if body = ''failed, no reason'' then
        Inr \<lparr>ev_type = ''payment_intent.payment_failed'',
             ev_object = Some (full_intent\<lparr>pi_last_payment_error := None\<rparr>)\<rparr>
      else if body = ''invoice.created'' then
        Inr \<lparr>ev_type = ''invoice.created'',
             ev_object = Some (full_intent\<lparr>pi_metadata := MetadataNull\<rparr>)\<rparr>
      else
        Inr \<lparr>ev_type = body, ev_object = Some full_intent\<rparr>)"

definition shop_transitionToState ::
  "string request_context \<Rightarrow> string option \<Rightarrow> string \<Rightarrow> shop
     \<Rightarrow> (fault + string transition_result) \<times> shop"
where
  "shop_transitionToState ctx orderId target w =
     (if orderId = None then (Inl (ServiceFault ''No Order with the id undefined''), w)
      else if order_state w = ''AddingItems'' \<or> order_state w = target then
        (Inr (TransitionedOrder target), w\<lparr>order_state := target\<rparr>)
      else
        (Inr (OrderStateTransitionError
                (''Cannot transition Order from '' @ order_state w @ '' to '' @ target)), w))"

definition shop_addPaymentToOrder ::
  "string request_context \<Rightarrow> string option \<Rightarrow> payment_input \<Rightarrow> shop
     \<Rightarrow> (fault + string add_payment_result) \<times> shop"
where
  "shop_addPaymentToOrder ctx orderId input w =
     (case orderId of
        None \<Rightarrow> (Inl (ServiceFault ''No Order with the id undefined''), w)
      | Some oid \<Rightarrow>
          if \<not> eligible w then
            (Inr (AddPaymentError ''The payment method is not eligible''), w)
          else if (oid, pin_paymentIntentId input) \<in> set (payments w) then
            (Inr (AddPaymentError ''The payment is already recorded''), w)
          else
            (Inr (PaidOrder ''PaymentSettled''),
             w\<lparr>order_state := ''PaymentSettled'',
               payments := (oid, pin_paymentIntentId input) # payments w\<rparr>))"

definition shop_services :: "(shop, string, string) services" where
  "shop_services =
     \<lparr>loggerCtx = ''StripePlugin'',
      handlerCode = ''stripe'',
      constructEventFromPayload = shop_constructEvent,
      getChannelFromToken =
        (\<lambda>token w. if token = Some ''t1'' then Inr ''channel-1''
                    else Inl (ServiceFault ''No channel with this token'')),
      transitionToState = shop_transitionToState,
      findPaymentMethods = (\<lambda>ctx w. Inr (methods w)),
      addPaymentToOrder = shop_addPaymentToOrder\<rparr>"

definition delivery :: "string \<Rightarrow> incoming_message" where
  "delivery body = \<lparr>rawBody = body\<rparr>"

definition admin_context :: "string request_context" where
  "admin_context =
     \<lparr>apiType = ''admin'', isAuthorized = True, authorizedAsOwnerOnly = False,
      channel = ''channel-1'', languageCode = ''en''\<rparr>"

definition shop_event :: "string \<Rightarrow> event" where
  "shop_event type = \<lparr>ev_type = type, ev_object = Some full_intent\<rparr>"

text \<open>
  Three more shops: the order has been shipped; no payment method with the Stripe handler
  is configured; the order does not accept the payment.
\<close>

definition shop_shipped :: shop where
  "shop_shipped = \<lparr>order_state = ''Shipped'', payments = [],
                   methods = [other_method, stripe_method], eligible = True\<rparr>"

definition shop_unconfigured :: shop where
  "shop_unconfigured = \<lparr>order_state = ''AddingItems'', payments = [],
                        methods = [other_method], eligible = True\<rparr>"

definition shop_ineligible :: shop where
  "shop_ineligible = \<lparr>order_state = ''AddingItems'', payments = [],
                      methods = [other_method, stripe_method], eligible = False\<rparr>"

section \<open>The paths of the handler\<close>

lemmas shop_defs =
  shop_services_def shop_constructEvent_def shop_transitionToState_def
  shop_addPaymentToOrder_def delivery_def intent_def full_intent_def good_signature_def
  shop_metadata_def full_metadata_def
  shop0_def stripe_method_def other_method_def admin_context_def shop_event_def
  shop_shipped_def shop_unconfigured_def shop_ineligible_def

lemmas controller_defs =
  webhook_def createContext_def getPaymentMethod_def metadata_of_def
  returned_def threw_def Let_def
  missingHeaderErrorMessage_def signatureErrorMessage_def noPaymentIntentErrorMessage_def

lemma createContext_effects: "fst (createContext env token w) = [GetChannelFromToken token]"
  by (simp add: createContext_def)

lemma getPaymentMethod_effects: "fst (getPaymentMethod env ctx w) = [FindPaymentMethods ctx]"
  by (simp add: getPaymentMethod_def)

lemma createContext_admin:
  assumes "snd (createContext env token w) = Inr ctx"
  shows "apiType ctx = ''admin'' \<and> isAuthorized ctx \<and> \<not> authorizedAsOwnerOnly ctx
         \<and> languageCode ctx = ''en'' \<and> getChannelFromToken env token w = Inr (channel ctx)"
  using assms by (auto simp: createContext_def split: sum.splits)

lemma getPaymentMethod_none:
  assumes "findPaymentMethods env ctx w = Inr ms"
    and "filter (\<lambda>m. co_code (pm_handler m) = handlerCode env) ms = []"
  shows "snd (getPaymentMethod env ctx w) =
           Inl (InternalServerError
                  (''['' @ loggerCtx env @ ''] Could not find Stripe PaymentMethod''))"
proof -
  from assms(2) have "find (\<lambda>m. co_code (pm_handler m) = handlerCode env) ms = None"
    by (simp add: find_None_iff filter_empty_conv)
  with assms(1) show ?thesis by (simp add: getPaymentMethod_def)
qed

text \<open>One lemma for each way through the handler: the run, given the path conditions.\<close>

lemma webhook_missing:
  assumes "falsy signature"
  shows "webhook env signature request w =
     returned
       [Log LogError missingHeaderErrorMessage (loggerCtx env),
        SendResponse BAD_REQUEST missingHeaderErrorMessage] w"
  using assms by (simp add: webhook_def)

lemma webhook_mismatch:
  assumes "\<not> falsy signature"
    and "constructEventFromPayload env (rawBody request) (js_str signature) = Inl e_message"
  shows "webhook env signature request w =
     returned
       [ConstructEvent (rawBody request) (js_str signature),
        Log LogError
          (signatureErrorMessage @ '' '' @ js_str signature @ '': '' @ e_message) (loggerCtx env),
        SendResponse BAD_REQUEST signatureErrorMessage] w"
  using assms by (simp add: webhook_def Let_def)

lemma webhook_no_object:
  assumes "\<not> falsy signature"
    and "constructEventFromPayload env (rawBody request) (js_str signature) = Inr ev"
    and "ev_object ev = None"
  shows "webhook env signature request w =
     returned
       [ConstructEvent (rawBody request) (js_str signature),
        Log LogError noPaymentIntentErrorMessage (loggerCtx env),
        SendResponse BAD_REQUEST noPaymentIntentErrorMessage] w"
  using assms by (simp add: webhook_def Let_def)

lemma webhook_null_metadata:
  assumes "\<not> falsy signature"
    and "constructEventFromPayload env (rawBody request) (js_str signature) = Inr ev"
    and "ev_object ev = Some paymentIntent"
    and "metadata_of paymentIntent = Inl f"
  shows "webhook env signature request w =
     threw [ConstructEvent (rawBody request) (js_str signature)] f w"
  using assms by (simp add: webhook_def Let_def)

lemma webhook_failed:
  assumes "verified env signature request ev paymentIntent metadata"
    and "ev_type ev = ''payment_intent.payment_failed''"
  shows "webhook env signature request w =
     returned
       [ConstructEvent (rawBody request) (js_str signature),
        Log LogWarn
          (''Payment for order '' @ js_str (metadata ''orderCode'')
             @ '' failed: '' @ js_str (case pi_last_payment_error paymentIntent of
                         None \<Rightarrow> None | Some e \<Rightarrow> lpe_message e))
          (loggerCtx env)] w"
  using assms by (simp add: webhook_def verified_def Let_def)

lemma webhook_other:
  assumes "verified env signature request ev paymentIntent metadata"
    and "ev_type ev \<noteq> ''payment_intent.payment_failed''"
    and "ev_type ev \<noteq> ''payment_intent.succeeded''"
  shows "webhook env signature request w =
     returned
       [ConstructEvent (rawBody request) (js_str signature),
        Log LogInfo
          (''Received '' @ ev_type ev @ '' status update for order ''
             @ js_str (metadata ''orderCode''))
          (loggerCtx env)] w"
  using assms by (simp add: webhook_def verified_def Let_def)

lemma webhook_no_channel:
  assumes "verified env signature request ev paymentIntent metadata"
    and "ev_type ev = ''payment_intent.succeeded''"
    and "snd (createContext env (metadata ''channelToken'') w) = Inl f"
  shows "webhook env signature request w =
     threw [ConstructEvent (rawBody request) (js_str signature),
            GetChannelFromToken (metadata ''channelToken'')] f w"
  using assms createContext_effects [of env "metadata ''channelToken''" w]
  by (cases "createContext env (metadata ''channelToken'') w")
     (simp add: webhook_def verified_def Let_def)

lemma webhook_transition_threw:
  assumes "verified env signature request ev paymentIntent metadata"
    and "ev_type ev = ''payment_intent.succeeded''"
    and "snd (createContext env (metadata ''channelToken'') w) = Inr ctx"
    and "transitionToState env ctx (metadata ''orderId'') ''ArrangingPayment'' w
           = (Inl f, w1)"
  shows "webhook env signature request w =
     threw [ConstructEvent (rawBody request) (js_str signature),
            GetChannelFromToken (metadata ''channelToken''),
            TransitionToState ctx (metadata ''orderId'') ''ArrangingPayment'']
       f w1"
  using assms createContext_effects [of env "metadata ''channelToken''" w]
  by (cases "createContext env (metadata ''channelToken'') w")
     (simp add: webhook_def verified_def Let_def)

lemma webhook_transition_error:
  assumes "verified env signature request ev paymentIntent metadata"
    and "ev_type ev = ''payment_intent.succeeded''"
    and "snd (createContext env (metadata ''channelToken'') w) = Inr ctx"
    and "transitionToState env ctx (metadata ''orderId'') ''ArrangingPayment'' w
           = (Inr (OrderStateTransitionError msg), w1)"
  shows "webhook env signature request w =
     returned
       [ConstructEvent (rawBody request) (js_str signature),
        GetChannelFromToken (metadata ''channelToken''),
        TransitionToState ctx (metadata ''orderId'') ''ArrangingPayment'',
        Log LogError
          (''Error transitioning order '' @ js_str (metadata ''orderCode'')
             @ '' to ArrangingPayment state: '' @ msg)
          (loggerCtx env)]
       w1"
  using assms createContext_effects [of env "metadata ''channelToken''" w]
  by (cases "createContext env (metadata ''channelToken'') w")
     (simp add: webhook_def verified_def Let_def)

lemma webhook_no_method:
  assumes "verified env signature request ev paymentIntent metadata"
    and "ev_type ev = ''payment_intent.succeeded''"
    and "snd (createContext env (metadata ''channelToken'') w) = Inr ctx"
    and "transitionToState env ctx (metadata ''orderId'') ''ArrangingPayment'' w
           = (Inr (TransitionedOrder ord), w1)"
    and "snd (getPaymentMethod env ctx w1) = Inl f"
  shows "webhook env signature request w =
     threw [ConstructEvent (rawBody request) (js_str signature),
            GetChannelFromToken (metadata ''channelToken''),
            TransitionToState ctx (metadata ''orderId'') ''ArrangingPayment'',
            FindPaymentMethods ctx]
       f w1"
  using assms createContext_effects [of env "metadata ''channelToken''" w]
    getPaymentMethod_effects [of env ctx w1]
  by (cases "createContext env (metadata ''channelToken'') w";
      cases "getPaymentMethod env ctx w1")
     (simp add: webhook_def verified_def Let_def)

lemma webhook_attach:
  assumes "verified env signature request ev paymentIntent metadata"
    and "ev_type ev = ''payment_intent.succeeded''"
    and "snd (createContext env (metadata ''channelToken'') w) = Inr ctx"
    and "transitionToState env ctx (metadata ''orderId'') ''ArrangingPayment'' w
           = (Inr (TransitionedOrder ord), w1)"
    and "snd (getPaymentMethod env ctx w1) = Inr paymentMethod"
    and "addPaymentToOrder env ctx (metadata ''orderId'')
           \<lparr>pin_method = pm_code paymentMethod, pin_paymentIntentId = pi_id paymentIntent\<rparr> w1
           = (res, w2)"
  shows "webhook env signature request w =
     (let t4 = [ConstructEvent (rawBody request) (js_str signature),
                GetChannelFromToken (metadata ''channelToken''),
                TransitionToState ctx (metadata ''orderId'') ''ArrangingPayment'',
                FindPaymentMethods ctx,
                AddPaymentToOrder ctx (metadata ''orderId'')
                  \<lparr>pin_method = pm_code paymentMethod,
                   pin_paymentIntentId = pi_id paymentIntent\<rparr>]
      in case res of
           Inl f \<Rightarrow> threw t4 f w2
         | Inr (AddPaymentError msg) \<Rightarrow>
             returned (t4 @ [Log LogError
                               (''Error adding payment to order ''
                                  @ js_str (metadata ''orderCode'') @ '': '' @ msg)
                               (loggerCtx env)]) w2
         | Inr (PaidOrder _) \<Rightarrow>
             returned (t4 @ [Log LogInfo
                               (''Stripe payment intent id '' @ pi_id paymentIntent
                                  @ '' added to order ''
                                  @ js_str (metadata ''orderCode''))
                               (loggerCtx env)]) w2)"
  using assms createContext_effects [of env "metadata ''channelToken''" w]
    getPaymentMethod_effects [of env ctx w1]
  by (cases "createContext env (metadata ''channelToken'') w";
      cases "getPaymentMethod env ctx w1")
     (simp add: webhook_def verified_def Let_def split: sum.splits add_payment_result.splits)

text \<open>Every run takes one of these ways.\<close>

lemma webhook_cases:
  obtains
    (missing) "falsy signature"
  | (mismatch) e_message where "\<not> falsy signature"
      "constructEventFromPayload env (rawBody request) (js_str signature) = Inl e_message"
  | (no_object) ev where "\<not> falsy signature"
      "constructEventFromPayload env (rawBody request) (js_str signature) = Inr ev"
      "ev_object ev = None"
  | (null_metadata) ev paymentIntent f where "\<not> falsy signature"
      "constructEventFromPayload env (rawBody request) (js_str signature) = Inr ev"
      "ev_object ev = Some paymentIntent"
      "metadata_of paymentIntent = Inl f"
  | (failed) ev paymentIntent metadata where "verified env signature request ev paymentIntent metadata"
      "ev_type ev = ''payment_intent.payment_failed''"
  | (other) ev paymentIntent metadata where "verified env signature request ev paymentIntent metadata"
      "ev_type ev \<noteq> ''payment_intent.payment_failed''"
      "ev_type ev \<noteq> ''payment_intent.succeeded''"
  | (no_channel) ev paymentIntent metadata f where "verified env signature request ev paymentIntent metadata"
      "ev_type ev = ''payment_intent.succeeded''"
      "snd (createContext env (metadata ''channelToken'') w) = Inl f"
  | (transition_threw) ev paymentIntent metadata ctx f w1 where
      "verified env signature request ev paymentIntent metadata"
      "ev_type ev = ''payment_intent.succeeded''"
      "snd (createContext env (metadata ''channelToken'') w) = Inr ctx"
      "transitionToState env ctx (metadata ''orderId'') ''ArrangingPayment'' w
         = (Inl f, w1)"
  | (transition_error) ev paymentIntent metadata ctx msg w1 where
      "verified env signature request ev paymentIntent metadata"
      "ev_type ev = ''payment_intent.succeeded''"
      "snd (createContext env (metadata ''channelToken'') w) = Inr ctx"
      "transitionToState env ctx (metadata ''orderId'') ''ArrangingPayment'' w
         = (Inr (OrderStateTransitionError msg), w1)"
  | (no_method) ev paymentIntent metadata ctx ord w1 f where
      "verified env signature request ev paymentIntent metadata"
      "ev_type ev = ''payment_intent.succeeded''"
      "snd (createContext env (metadata ''channelToken'') w) = Inr ctx"
      "transitionToState env ctx (metadata ''orderId'') ''ArrangingPayment'' w
         = (Inr (TransitionedOrder ord), w1)"
      "snd (getPaymentMethod env ctx w1) = Inl f"
  | (attach) ev paymentIntent metadata ctx ord w1 paymentMethod res w2 where
      "verified env signature request ev paymentIntent metadata"
      "ev_type ev = ''payment_intent.succeeded''"
      "snd (createContext env (metadata ''channelToken'') w) = Inr ctx"
      "transitionToState env ctx (metadata ''orderId'') ''ArrangingPayment'' w
         = (Inr (TransitionedOrder ord), w1)"
      "snd (getPaymentMethod env ctx w1) = Inr paymentMethod"
      "addPaymentToOrder env ctx (metadata ''orderId'')
         \<lparr>pin_method = pm_code paymentMethod, pin_paymentIntentId = pi_id paymentIntent\<rparr> w1
         = (res, w2)"
proof (cases "falsy signature")
  case True
  then show ?thesis by (rule missing)
next
  case present: False
  show ?thesis
  proof (cases "constructEventFromPayload env (rawBody request) (js_str signature)")
    case (Inl e_message)
    with present show ?thesis by (rule mismatch)
  next
    case (Inr ev)
    show ?thesis
    proof (cases "ev_object ev")
      case None
      with present Inr show ?thesis by (rule no_object)
    next
      case object: (Some paymentIntent)
      show ?thesis
      proof (cases "metadata_of paymentIntent")
        case (Inl f)
        with present Inr object show ?thesis by (rule null_metadata)
      next
      case destructured: (Inr metadata)
      with present Inr object have v: "verified env signature request ev paymentIntent metadata"
        by (simp add: verified_def)
      show ?thesis
      proof (cases "ev_type ev = ''payment_intent.payment_failed''")
        case True
        with v show ?thesis by (rule failed)
      next
        case not_failed: False
        show ?thesis
        proof (cases "ev_type ev = ''payment_intent.succeeded''")
          case False
          with v not_failed show ?thesis by (rule other)
        next
          case succeeded: True
          show ?thesis
          proof (cases "snd (createContext env (metadata ''channelToken'') w)")
            case (Inl f)
            with v succeeded show ?thesis by (rule no_channel)
          next
            case ctx: (Inr ctx)
            obtain tr w1 where tt:
              "transitionToState env ctx (metadata ''orderId'')
                 ''ArrangingPayment'' w = (tr, w1)"
              by (cases "transitionToState env ctx (metadata ''orderId'')
                 ''ArrangingPayment'' w")
            show ?thesis
            proof (cases tr)
              case (Inl f)
              with v succeeded ctx tt show ?thesis by (auto intro: transition_threw)
            next
              case res: (Inr res)
              show ?thesis
              proof (cases res)
                case (OrderStateTransitionError msg)
                with v succeeded ctx tt res show ?thesis by (auto intro: transition_error)
              next
                case ok: (TransitionedOrder ord)
                show ?thesis
                proof (cases "snd (getPaymentMethod env ctx w1)")
                  case (Inl f)
                  with v succeeded ctx tt res ok show ?thesis by (auto intro: no_method)
                next
                  case (Inr paymentMethod)
                  obtain r2 w2 where
                    "addPaymentToOrder env ctx (metadata ''orderId'')
                       \<lparr>pin_method = pm_code paymentMethod,
                        pin_paymentIntentId = pi_id paymentIntent\<rparr> w1 = (r2, w2)"
                    by (cases "addPaymentToOrder env ctx (metadata ''orderId'')
                       \<lparr>pin_method = pm_code paymentMethod,
                        pin_paymentIntentId = pi_id paymentIntent\<rparr> w1")
                  with v succeeded ctx tt res ok Inr show ?thesis by (auto intro: attach)
                qed
              qed
            qed
          qed
        qed
      qed
      qed
    qed
  qed
qed

text \<open>A run that attached a payment went all the way to the attach call.\<close>

lemma attach_inversion:
  assumes "list_ex is_attach (effects (webhook env signature request w))"
  obtains ev paymentIntent metadata ctx ord w1 paymentMethod res w2 where
      "verified env signature request ev paymentIntent metadata"
      "ev_type ev = ''payment_intent.succeeded''"
      "snd (createContext env (metadata ''channelToken'') w) = Inr ctx"
      "transitionToState env ctx (metadata ''orderId'') ''ArrangingPayment'' w
         = (Inr (TransitionedOrder ord), w1)"
      "snd (getPaymentMethod env ctx w1) = Inr paymentMethod"
      "addPaymentToOrder env ctx (metadata ''orderId'')
         \<lparr>pin_method = pm_code paymentMethod, pin_paymentIntentId = pi_id paymentIntent\<rparr> w1
         = (res, w2)"
proof (cases rule: webhook_cases [where env = env and signature = signature
                                    and request = request and w = w])
  case missing
  from assms show ?thesis by (simp add: webhook_missing [OF missing] returned_def)
next
  case (mismatch e_message)
  from assms show ?thesis by (simp add: webhook_mismatch [OF mismatch] returned_def)
next
  case (no_object ev)
  from assms show ?thesis by (simp add: webhook_no_object [OF no_object] returned_def)
next
  case (null_metadata ev paymentIntent f)
  from assms show ?thesis by (simp add: webhook_null_metadata [OF null_metadata] threw_def)
next
  case (failed ev paymentIntent metadata)
  from assms show ?thesis by (simp add: webhook_failed [OF failed] returned_def)
next
  case (other ev paymentIntent metadata)
  from assms show ?thesis by (simp add: webhook_other [OF other] returned_def)
next
  case (no_channel ev paymentIntent metadata f)
  from assms show ?thesis by (simp add: webhook_no_channel [OF no_channel] threw_def)
next
  case (transition_threw ev paymentIntent metadata ctx f w1)
  from assms show ?thesis
    by (simp add: webhook_transition_threw [OF transition_threw] threw_def)
next
  case (transition_error ev paymentIntent metadata ctx msg w1)
  from assms show ?thesis
    by (simp add: webhook_transition_error [OF transition_error] returned_def)
next
  case (no_method ev paymentIntent metadata ctx ord w1 f)
  from assms show ?thesis by (simp add: webhook_no_method [OF no_method] threw_def)
next
  case (attach ev paymentIntent metadata ctx ord w1 paymentMethod res w2)
  then show ?thesis by (rule that)
qed

text \<open>The clauses of the contract, one by one.\<close>

lemma gateway_transition_stable:
  assumes "idempotent_gateway env recs"
    and "transitionToState env ctx orderId target w = (res, w')"
  shows "reads_stable env w w'"
proof -
  from assms(1) have "reads_stable env w (snd (transitionToState env ctx orderId target w))"
    by (simp add: idempotent_gateway_def)
  with assms(2) show ?thesis by simp
qed

lemma gateway_attach_stable:
  assumes "idempotent_gateway env recs"
    and "addPaymentToOrder env ctx orderId input w = (res, w')"
  shows "reads_stable env w w'"
proof -
  from assms(1) have "reads_stable env w (snd (addPaymentToOrder env ctx orderId input w))"
    by (simp add: idempotent_gateway_def)
  with assms(2) show ?thesis by simp
qed

lemma gateway_attach_records:
  assumes "idempotent_gateway env recs"
    and "addPaymentToOrder env ctx orderId input w = (Inr (PaidOrder ord), w')"
  shows "\<exists>oid. orderId = Some oid \<and> (oid, pin_paymentIntentId input) \<in> set (recs w')"
proof -
  from assms(1) have
    "\<forall>ctx orderId input w ord w'.
        addPaymentToOrder env ctx orderId input w = (Inr (PaidOrder ord), w') \<longrightarrow>
        (\<exists>oid. orderId = Some oid \<and> (oid, pin_paymentIntentId input) \<in> set (recs w'))"
    by (simp add: idempotent_gateway_def)
  with assms(2) show ?thesis by blast
qed

lemma gateway_transition_again:
  assumes "idempotent_gateway env recs"
    and "(oid, pid) \<in> set (recs w)"
  shows "\<exists>res w'. transitionToState env ctx (Some oid) target w = (Inr res, w')
                 \<and> recs w' = recs w"
proof -
  from assms(1) have
    "\<forall>ctx oid pid target w.
        (oid, pid) \<in> set (recs w) \<longrightarrow>
        (\<exists>res w'. transitionToState env ctx (Some oid) target w = (Inr res, w')
                 \<and> recs w' = recs w)"
    by (simp add: idempotent_gateway_def)
  with assms(2) show ?thesis by blast
qed

lemma gateway_attach_again:
  assumes "idempotent_gateway env recs"
    and "(oid, pin_paymentIntentId input) \<in> set (recs w)"
  shows "\<exists>res w'. addPaymentToOrder env ctx (Some oid) input w = (Inr res, w')
                 \<and> recs w' = recs w"
proof -
  from assms(1) have
    "\<forall>ctx oid input w.
        (oid, pin_paymentIntentId input) \<in> set (recs w) \<longrightarrow>
        (\<exists>res w'. addPaymentToOrder env ctx (Some oid) input w = (Inr res, w')
                 \<and> recs w' = recs w)"
    by (simp add: idempotent_gateway_def)
  with assms(2) show ?thesis by blast
qed



text \<open>The shop keeps the contract.\<close>

lemma shop_transition_stable:
  "reads_stable shop_services w (snd (transitionToState shop_services ctx orderId target w))"
  by (simp add: reads_stable_def shop_services_def shop_transitionToState_def)

lemma shop_attach_stable:
  "reads_stable shop_services w (snd (addPaymentToOrder shop_services ctx orderId input w))"
  by (simp add: reads_stable_def shop_services_def shop_addPaymentToOrder_def
        split: option.splits)

lemma shop_attach_records:
  "addPaymentToOrder shop_services ctx orderId input w = (Inr (PaidOrder ord), w') \<Longrightarrow>
     \<exists>oid. orderId = Some oid \<and> (oid, pin_paymentIntentId input) \<in> set (payments w')"
  by (auto simp: shop_services_def shop_addPaymentToOrder_def split: option.splits if_splits)

lemma shop_transition_again:
  "(oid, pid) \<in> set (payments w) \<Longrightarrow>
     \<exists>res w'. transitionToState shop_services ctx (Some oid) target w = (Inr res, w')
              \<and> payments w' = payments w"
  by (simp add: shop_services_def shop_transitionToState_def)

lemma shop_attach_again:
  "(oid, pin_paymentIntentId input) \<in> set (payments w) \<Longrightarrow>
     \<exists>res w'. addPaymentToOrder shop_services ctx (Some oid) input w = (Inr res, w')
              \<and> payments w' = payments w"
  by (simp add: shop_services_def shop_addPaymentToOrder_def)

lemma shop_idempotent: "idempotent_gateway shop_services payments"
  unfolding idempotent_gateway_def
proof (intro conjI allI impI)
  fix ctx orderId target w
  show "reads_stable shop_services w
          (snd (transitionToState shop_services ctx orderId target w))"
    by (rule shop_transition_stable)
next
  fix ctx orderId input w
  show "reads_stable shop_services w
          (snd (addPaymentToOrder shop_services ctx orderId input w))"
    by (rule shop_attach_stable)
next
  fix ctx orderId input w ord w'
  assume "addPaymentToOrder shop_services ctx orderId input w = (Inr (PaidOrder ord), w')"
  then show "\<exists>oid. orderId = Some oid \<and> (oid, pin_paymentIntentId input) \<in> set (payments w')"
    by (rule shop_attach_records)
next
  fix ctx :: "string request_context" and oid pid target and w :: shop
  assume "(oid, pid) \<in> set (payments w)"
  then show "\<exists>res w'. transitionToState shop_services ctx (Some oid) target w = (Inr res, w')
                     \<and> payments w' = payments w"
    by (rule shop_transition_again)
next
  fix ctx :: "string request_context" and oid and input :: payment_input and w :: shop
  assume "(oid, pin_paymentIntentId input) \<in> set (payments w)"
  then show "\<exists>res w'. addPaymentToOrder shop_services ctx (Some oid) input w = (Inr res, w')
                     \<and> payments w' = payments w"
    by (rule shop_attach_again)
qed

section \<open>Properties\<close>

text \<open>
  C1, as the code has it. The handler does not look at the correlation metadata before it
  goes on, so a succeeded event is not rejected for what its metadata lacks. For every
  verified \<open>payment_intent.succeeded\<close> event, also one whose metadata lacks the
  channel token or the order identifier: the first call after the signature check is the
  channel resolution, with the token of the metadata (\<open>None\<close>, that is
  \<^verbatim>\<open>undefined\<close>, when it is missing), and when the resolution returns a channel,
  the next call is the transition of the order named by the metadata (again
  \<^verbatim>\<open>undefined\<close> when missing) to \<open>ArrangingPayment\<close>.
\<close>

theorem C1_succeeded_event_not_screened:
  assumes "verified env signature request ev paymentIntent metadata"
    and "ev_type ev = ''payment_intent.succeeded''"
  shows "take 2 (effects (webhook env signature request w)) =
           [ConstructEvent (rawBody request) (js_str signature),
            GetChannelFromToken (metadata ''channelToken'')]
         \<and> (\<forall>ch. getChannelFromToken env (metadata ''channelToken'') w = Inr ch \<longrightarrow>
                take 3 (effects (webhook env signature request w)) =
                  [ConstructEvent (rawBody request) (js_str signature),
                   GetChannelFromToken (metadata ''channelToken''),
                   TransitionToState
                     \<lparr>apiType = ''admin'', isAuthorized = True, authorizedAsOwnerOnly = False,
                      channel = ch, languageCode = ''en''\<rparr>
                     (metadata ''orderId'') ''ArrangingPayment''])"
  using assms
  by (auto simp: webhook_def createContext_def getPaymentMethod_def returned_def threw_def
        Let_def verified_def
      split: sum.splits prod.splits option.splits transition_result.splits
        add_payment_result.splits)

theorem C1_succeeded_event_not_screened_witness:
  "verified shop_services (Some good_signature) (delivery ''succeeded, no orderId'')
     \<lparr>ev_type = ''payment_intent.succeeded'',
      ev_object = Some (intent [''channelToken'', ''orderCode''])\<rparr>
     (intent [''channelToken'', ''orderCode'']) (shop_metadata [''channelToken'', ''orderCode''])
   \<and> shop_metadata [''channelToken'', ''orderCode''] ''orderId'' = None
   \<and> getChannelFromToken shop_services
         (shop_metadata [''channelToken'', ''orderCode''] ''channelToken'') shop0
       = Inr ''channel-1''
   \<and> take 3 (effects (webhook shop_services (Some good_signature)
                       (delivery ''succeeded, no orderId'') shop0)) =
       [ConstructEvent ''succeeded, no orderId'' good_signature,
        GetChannelFromToken (Some ''t1''),
        TransitionToState admin_context None ''ArrangingPayment'']
   \<and> verified shop_services (Some good_signature) (delivery ''succeeded, no metadata'')
       \<lparr>ev_type = ''payment_intent.succeeded'',
        ev_object = Some (full_intent\<lparr>pi_metadata := MetadataUndefined\<rparr>)\<rparr>
       (full_intent\<lparr>pi_metadata := MetadataUndefined\<rparr>) Map.empty
   \<and> take 2 (effects (webhook shop_services (Some good_signature)
                       (delivery ''succeeded, no metadata'') shop0)) =
       [ConstructEvent ''succeeded, no metadata'' good_signature, GetChannelFromToken None]"
proof -
  have v: "verified shop_services (Some good_signature) (delivery ''succeeded, no orderId'')
     \<lparr>ev_type = ''payment_intent.succeeded'',
      ev_object = Some (intent [''channelToken'', ''orderCode''])\<rparr>
     (intent [''channelToken'', ''orderCode'']) (shop_metadata [''channelToken'', ''orderCode''])"
    by (simp add: verified_def metadata_of_def shop_defs)
  have t: "ev_type \<lparr>ev_type = ''payment_intent.succeeded'',
      ev_object = Some (intent [''channelToken'', ''orderCode''])\<rparr> = ''payment_intent.succeeded''"
    by simp
  have ch: "getChannelFromToken shop_services
         (shop_metadata [''channelToken'', ''orderCode''] ''channelToken'') shop0
       = Inr ''channel-1''"
    by (simp add: shop_defs)
  have v': "verified shop_services (Some good_signature) (delivery ''succeeded, no metadata'')
       \<lparr>ev_type = ''payment_intent.succeeded'',
        ev_object = Some (full_intent\<lparr>pi_metadata := MetadataUndefined\<rparr>)\<rparr>
       (full_intent\<lparr>pi_metadata := MetadataUndefined\<rparr>) Map.empty"
    by (simp add: verified_def metadata_of_def shop_defs)
  have t': "ev_type \<lparr>ev_type = ''payment_intent.succeeded'',
        ev_object = Some (full_intent\<lparr>pi_metadata := MetadataUndefined\<rparr>)\<rparr>
      = ''payment_intent.succeeded''"
    by simp
  from C1_succeeded_event_not_screened [OF v t, of shop0]
       C1_succeeded_event_not_screened [OF v' t', of shop0] v v' ch
  show ?thesis
    by (simp add: shop_defs)
qed

text \<open>
  The claim as it was stated fails on the shop: a verified succeeded event without order
  identifier is not rejected. The channel is resolved and the order service is called
  (with \<^verbatim>\<open>undefined\<close> as the order).
\<close>

theorem C1_counterexample:
  "metadata_of (intent [''channelToken'', ''orderCode''])
     = Inr (shop_metadata [''channelToken'', ''orderCode''])
   \<and> shop_metadata [''channelToken'', ''orderCode''] ''orderId'' = None
   \<and> constructEventFromPayload shop_services ''succeeded, no orderId'' good_signature =
       Inr \<lparr>ev_type = ''payment_intent.succeeded'',
            ev_object = Some (intent [''channelToken'', ''orderCode''])\<rparr>
   \<and> webhook shop_services (Some good_signature) (delivery ''succeeded, no orderId'') shop0 =
       threw
         [ConstructEvent ''succeeded, no orderId'' good_signature,
          GetChannelFromToken (Some ''t1''),
          TransitionToState admin_context None ''ArrangingPayment'']
         (ServiceFault ''No Order with the id undefined'') shop0"
  by (simp add: controller_defs shop_defs)

text \<open>
  C2. The runs of the handler on a verified \<open>payment_intent.payment_failed\<close> event
  and on a verified event of a type it does not know: the signature check and one log
  entry, and no call of \<^verbatim>\<open>response.status(...).send(...)\<close> at all. The handler
  takes the response object itself, so nothing else answers the sender: no success
  response is sent for an ignored event.
\<close>

theorem C2_ignored_event_gets_no_response:
  "effects (webhook shop_services (Some good_signature)
              (delivery ''payment_intent.payment_failed'') shop0) =
     [ConstructEvent ''payment_intent.payment_failed'' good_signature,
      Log LogWarn ''Payment for order ABC failed: card_declined'' ''StripePlugin'']
   \<and> \<not> list_ex is_response
         (effects (webhook shop_services (Some good_signature)
                     (delivery ''payment_intent.payment_failed'') shop0))
   \<and> effects (webhook shop_services (Some good_signature) (delivery ''charge.refunded'') shop0) =
     [ConstructEvent ''charge.refunded'' good_signature,
      Log LogInfo ''Received charge.refunded status update for order ABC'' ''StripePlugin'']
   \<and> \<not> list_ex is_response
         (effects (webhook shop_services (Some good_signature)
                     (delivery ''charge.refunded'') shop0))"
  by (simp add: controller_defs shop_defs)

text \<open>
  C3. A verified event of type \<open>payment_intent.payment_failed\<close> is ignored: after the
  signature check the handler does one thing only, a warning-level log. Its message ends
  with \<^verbatim>\<open>last_payment_error.message\<close> of the payment intent: when the gateway
  supplied a failure reason, the message ends with that reason (and with the word
  \<open>undefined\<close> when it supplied none). The handler calls neither the order-state
  transition nor the payment attach, throws nothing and leaves the state of the services
  as it was.
\<close>

theorem C3_failed_event_ignored:
  assumes "verified env signature request ev paymentIntent metadata"
    and "ev_type ev = ''payment_intent.payment_failed''"
  shows "effects (webhook env signature request w) =
           [ConstructEvent (rawBody request) (js_str signature),
            Log LogWarn
              (''Payment for order '' @ js_str (metadata ''orderCode'') @ '' failed: ''
                 @ js_str (case pi_last_payment_error paymentIntent of
                             None \<Rightarrow> None | Some e \<Rightarrow> lpe_message e))
              (loggerCtx env)]
         \<and> (\<forall>e reason.
               pi_last_payment_error paymentIntent = Some e \<and> lpe_message e = Some reason \<longrightarrow>
               last (effects (webhook env signature request w)) =
                 Log LogWarn
                   (''Payment for order '' @ js_str (metadata ''orderCode'') @ '' failed: ''
                      @ reason)
                   (loggerCtx env))
         \<and> \<not> list_ex is_transition (effects (webhook env signature request w))
         \<and> \<not> list_ex is_attach (effects (webhook env signature request w))
         \<and> fault (webhook env signature request w) = None
         \<and> world (webhook env signature request w) = w"
  by (auto simp: webhook_failed [OF assms] returned_def)

theorem C3_failed_event_ignored_witness:
  "verified shop_services (Some good_signature) (delivery ''payment_intent.payment_failed'')
     (shop_event ''payment_intent.payment_failed'') full_intent full_metadata
   \<and> ev_type (shop_event ''payment_intent.payment_failed'') = ''payment_intent.payment_failed''
   \<and> pi_last_payment_error full_intent = Some \<lparr>lpe_message = Some ''card_declined''\<rparr>
   \<and> effects (webhook shop_services (Some good_signature)
                (delivery ''payment_intent.payment_failed'') shop0) =
       [ConstructEvent ''payment_intent.payment_failed'' good_signature,
        Log LogWarn ''Payment for order ABC failed: card_declined'' ''StripePlugin'']
   \<and> world (webhook shop_services (Some good_signature)
              (delivery ''payment_intent.payment_failed'') shop0) = shop0
   \<and> verified shop_services (Some good_signature) (delivery ''failed, no reason'')
       \<lparr>ev_type = ''payment_intent.payment_failed'',
        ev_object = Some (full_intent\<lparr>pi_last_payment_error := None\<rparr>)\<rparr>
       (full_intent\<lparr>pi_last_payment_error := None\<rparr>) full_metadata
   \<and> effects (webhook shop_services (Some good_signature)
                (delivery ''failed, no reason'') shop0) =
       [ConstructEvent ''failed, no reason'' good_signature,
        Log LogWarn ''Payment for order ABC failed: undefined'' ''StripePlugin'']"
proof -
  have v: "verified shop_services (Some good_signature)
             (delivery ''payment_intent.payment_failed'')
             (shop_event ''payment_intent.payment_failed'') full_intent full_metadata"
    by (simp add: verified_def metadata_of_def shop_defs)
  have t: "ev_type (shop_event ''payment_intent.payment_failed'')
             = ''payment_intent.payment_failed''"
    by (simp add: shop_event_def)
  have e: "pi_last_payment_error full_intent = Some \<lparr>lpe_message = Some ''card_declined''\<rparr>"
    by (simp add: shop_defs)
  have v': "verified shop_services (Some good_signature) (delivery ''failed, no reason'')
       \<lparr>ev_type = ''payment_intent.payment_failed'',
        ev_object = Some (full_intent\<lparr>pi_last_payment_error := None\<rparr>)\<rparr>
       (full_intent\<lparr>pi_last_payment_error := None\<rparr>) full_metadata"
    by (simp add: verified_def metadata_of_def shop_defs)
  have t': "ev_type \<lparr>ev_type = ''payment_intent.payment_failed'',
        ev_object = Some (full_intent\<lparr>pi_last_payment_error := None\<rparr>)\<rparr>
      = ''payment_intent.payment_failed''"
    by simp
  from C3_failed_event_ignored [OF v t, of shop0] C3_failed_event_ignored [OF v' t', of shop0]
       v v' t e
  show ?thesis
    by (simp add: shop_defs)
qed

text \<open>
  C4, as the code has it. A succeeded event does not succeed on every first delivery: the
  transition can return an error, and the payment method can be missing. What holds is
  the redelivery after a success. Let the order service keep the contract of repeated
  calls (\<open>idempotent_gateway\<close>), and let the first run of the handler on a delivery have
  succeeded: it attached the payment and ended with the info-level log. Then the run on
  the identical delivery, started in the state the first run left, throws nothing, ends
  with a log entry, and leaves the payment records exactly as the first run left them: no
  second payment record is created.
\<close>

theorem C4_redelivery_is_harmless:
  assumes gw: "idempotent_gateway env recs"
    and ok: "run_succeeded (webhook env signature request w)"
  shows "fault (webhook env signature request (world (webhook env signature request w))) = None
         \<and> is_log (last (effects
              (webhook env signature request (world (webhook env signature request w)))))
         \<and> recs (world (webhook env signature request (world (webhook env signature request w))))
             = recs (world (webhook env signature request w))"
proof -
  from ok have "list_ex is_attach (effects (webhook env signature request w))"
    by (simp add: run_succeeded_def)
  then obtain ev pi metadata ctx ord w1 pm res w2 where
    v: "verified env signature request ev pi metadata"
    and s: "ev_type ev = ''payment_intent.succeeded''"
    and cc: "snd (createContext env (metadata ''channelToken'') w) = Inr ctx"
    and tt: "transitionToState env ctx (metadata ''orderId'') ''ArrangingPayment'' w
               = (Inr (TransitionedOrder ord), w1)"
    and gp: "snd (getPaymentMethod env ctx w1) = Inr pm"
    and ap: "addPaymentToOrder env ctx (metadata ''orderId'')
               \<lparr>pin_method = pm_code pm, pin_paymentIntentId = pi_id pi\<rparr> w1 = (res, w2)"
    by (rule attach_inversion)
  let ?input = "\<lparr>pin_method = pm_code pm, pin_paymentIntentId = pi_id pi\<rparr>"
  note first = webhook_attach [OF v s cc tt gp ap]
  have "\<exists>ord2. res = Inr (PaidOrder ord2)"
  proof (cases res)
    case (Inl f)
    with ok first show ?thesis by (simp add: run_succeeded_def threw_def)
  next
    case (Inr r)
    with ok first show ?thesis
      by (cases r) (simp_all add: run_succeeded_def returned_def)
  qed
  then obtain ord2 where res: "res = Inr (PaidOrder ord2)" ..
  with first have w2: "world (webhook env signature request w) = w2"
    by (simp add: returned_def)
  from ap res have ap': "addPaymentToOrder env ctx (metadata ''orderId'') ?input w1
                           = (Inr (PaidOrder ord2), w2)"
    by simp
  from gateway_attach_records [OF gw ap'] obtain oid where
    oid: "metadata ''orderId'' = Some oid" and rec: "(oid, pi_id pi) \<in> set (recs w2)"
    by auto
  have s1: "reads_stable env w w1" using gw tt by (rule gateway_transition_stable)
  have s2: "reads_stable env w1 w2" using gw ap by (rule gateway_attach_stable)
  from cc s1 s2 have cc2: "snd (createContext env (metadata ''channelToken'') w2) = Inr ctx"
    by (simp add: createContext_def reads_stable_def)
  from gateway_transition_again [OF gw rec] obtain res3 w3 where
    tt2: "transitionToState env ctx (Some oid) ''ArrangingPayment'' w2 = (Inr res3, w3)"
    and r3: "recs w3 = recs w2"
    by blast
  show ?thesis
  proof (cases res3)
    case (OrderStateTransitionError msg)
    with tt2 oid
    have "transitionToState env ctx (metadata ''orderId'') ''ArrangingPayment'' w2
            = (Inr (OrderStateTransitionError msg), w3)"
      by simp
    from webhook_transition_error [OF v s cc2 this] r3 show ?thesis
      by (simp add: w2 returned_def)
  next
    case (TransitionedOrder ord3)
    with tt2 oid
    have tt3: "transitionToState env ctx (metadata ''orderId'') ''ArrangingPayment'' w2
            = (Inr (TransitionedOrder ord3), w3)"
      by simp
    have s3: "reads_stable env w2 w3" using gw tt2 by (rule gateway_transition_stable)
    from gp s2 s3 have gp2: "snd (getPaymentMethod env ctx w3) = Inr pm"
      by (simp add: getPaymentMethod_def reads_stable_def)
    from rec r3 have "(oid, pin_paymentIntentId ?input) \<in> set (recs w3)" by simp
    from gateway_attach_again [OF gw this] obtain res4 w4 where
      ap2: "addPaymentToOrder env ctx (Some oid) ?input w3 = (Inr res4, w4)"
      and r4: "recs w4 = recs w3"
      by blast
    from ap2 oid
    have "addPaymentToOrder env ctx (metadata ''orderId'') ?input w3 = (Inr res4, w4)"
      by simp
    from webhook_attach [OF v s cc2 tt3 gp2 this] r3 r4 show ?thesis
      by (cases res4) (simp_all add: w2 returned_def)
  qed
qed

theorem C4_redelivery_is_harmless_witness:
  "idempotent_gateway shop_services payments
   \<and> run_succeeded (webhook shop_services (Some good_signature)
                      (delivery ''payment_intent.succeeded'') shop0)
   \<and> payments (world (webhook shop_services (Some good_signature)
                        (delivery ''payment_intent.succeeded'') shop0)) = [(''42'', ''pi_123'')]
   \<and> fault (webhook shop_services (Some good_signature) (delivery ''payment_intent.succeeded'')
              (world (webhook shop_services (Some good_signature)
                        (delivery ''payment_intent.succeeded'') shop0))) = None
   \<and> is_log (last (effects
        (webhook shop_services (Some good_signature) (delivery ''payment_intent.succeeded'')
           (world (webhook shop_services (Some good_signature)
                     (delivery ''payment_intent.succeeded'') shop0)))))
   \<and> payments (world
        (webhook shop_services (Some good_signature) (delivery ''payment_intent.succeeded'')
           (world (webhook shop_services (Some good_signature)
                     (delivery ''payment_intent.succeeded'') shop0)))) = [(''42'', ''pi_123'')]"
proof -
  note gw = shop_idempotent
  have ok: "run_succeeded (webhook shop_services (Some good_signature)
                      (delivery ''payment_intent.succeeded'') shop0)"
    by (simp add: run_succeeded_def controller_defs shop_defs)
  have p: "payments (world (webhook shop_services (Some good_signature)
                        (delivery ''payment_intent.succeeded'') shop0)) = [(''42'', ''pi_123'')]"
    by (simp add: controller_defs shop_defs)
  from C4_redelivery_is_harmless [OF gw ok] gw ok p show ?thesis by simp
qed

text \<open>
  The claim as it was stated fails on the shop, whose order service keeps the contract.
  On a shop without a payment method for the Stripe handler, the first run on a verified
  succeeded event does not succeed, and the second run on the identical delivery ends
  with the \<^verbatim>\<open>InternalServerError\<close> thrown. On a shop whose order has been shipped
  the first run does not succeed either.
\<close>

theorem C4_counterexample:
  "idempotent_gateway shop_services payments
   \<and> verified shop_services (Some good_signature) (delivery ''payment_intent.succeeded'')
       (shop_event ''payment_intent.succeeded'') full_intent full_metadata
   \<and> ev_type (shop_event ''payment_intent.succeeded'') = ''payment_intent.succeeded''
   \<and> \<not> run_succeeded (webhook shop_services (Some good_signature)
                         (delivery ''payment_intent.succeeded'') shop_unconfigured)
   \<and> fault (webhook shop_services (Some good_signature) (delivery ''payment_intent.succeeded'')
              (world (webhook shop_services (Some good_signature)
                        (delivery ''payment_intent.succeeded'') shop_unconfigured))) =
       Some (InternalServerError ''[StripePlugin] Could not find Stripe PaymentMethod'')
   \<and> \<not> run_succeeded (webhook shop_services (Some good_signature)
                         (delivery ''payment_intent.succeeded'') shop_shipped)"
proof -
  have "verified shop_services (Some good_signature) (delivery ''payment_intent.succeeded'')
       (shop_event ''payment_intent.succeeded'') full_intent full_metadata"
    by (simp add: verified_def metadata_of_def shop_defs)
  moreover have "ev_type (shop_event ''payment_intent.succeeded'') = ''payment_intent.succeeded''"
    by (simp add: shop_event_def)
  moreover have "\<not> run_succeeded (webhook shop_services (Some good_signature)
                         (delivery ''payment_intent.succeeded'') shop_unconfigured)"
    by (simp add: run_succeeded_def controller_defs shop_defs)
  moreover have "fault (webhook shop_services (Some good_signature)
              (delivery ''payment_intent.succeeded'')
              (world (webhook shop_services (Some good_signature)
                        (delivery ''payment_intent.succeeded'') shop_unconfigured))) =
       Some (InternalServerError ''[StripePlugin] Could not find Stripe PaymentMethod'')"
    by (simp add: controller_defs shop_defs)
  moreover have "\<not> run_succeeded (webhook shop_services (Some good_signature)
                         (delivery ''payment_intent.succeeded'') shop_shipped)"
    by (simp add: run_succeeded_def controller_defs shop_defs)
  ultimately show ?thesis using shop_idempotent by simp
qed

text \<open>
  C5. The payment is attached only after the transition has returned an order. In every
  run in which \<^verbatim>\<open>addPaymentToOrder\<close> is called, the call of
  \<^verbatim>\<open>transitionToState\<close> to \<open>ArrangingPayment\<close> comes before it, no attach call
  comes before that transition, and the transition returned an order, not a transition
  error. And when the transition returns a transition error, the run stops there: the
  last thing done is an error-level log with the message of the transition error, the
  payment is not attached, and nothing is thrown.
\<close>

theorem C5_attach_only_after_transition:
  "(list_ex is_attach (effects (webhook env signature request w)) \<longrightarrow>
      (\<exists>pre post ctx orderId ord w1.
         effects (webhook env signature request w) =
           pre @ TransitionToState ctx orderId ''ArrangingPayment'' # post
         \<and> \<not> list_ex is_attach pre \<and> list_ex is_attach post
         \<and> transitionToState env ctx orderId ''ArrangingPayment'' w
             = (Inr (TransitionedOrder ord), w1)))
   \<and> (verified env signature' request' ev paymentIntent metadata
        \<and> ev_type ev = ''payment_intent.succeeded''
        \<and> snd (createContext env (metadata ''channelToken'') w') = Inr ctx'
        \<and> transitionToState env ctx' (metadata ''orderId'')
              ''ArrangingPayment'' w' = (Inr (OrderStateTransitionError msg), w1') \<longrightarrow>
      effects (webhook env signature' request' w') =
        [ConstructEvent (rawBody request') (js_str signature'),
         GetChannelFromToken (metadata ''channelToken''),
         TransitionToState ctx' (metadata ''orderId'') ''ArrangingPayment'',
         Log LogError
           (''Error transitioning order '' @ js_str (metadata ''orderCode'')
              @ '' to ArrangingPayment state: '' @ msg)
           (loggerCtx env)]
      \<and> \<not> list_ex is_attach (effects (webhook env signature' request' w'))
      \<and> fault (webhook env signature' request' w') = None
      \<and> world (webhook env signature' request' w') = w1')"
proof (rule conjI; rule impI)
  assume "list_ex is_attach (effects (webhook env signature request w))"
  then obtain ev pi metadata ctx ord w1 pm res w2 where
    v: "verified env signature request ev pi metadata"
    and s: "ev_type ev = ''payment_intent.succeeded''"
    and cc: "snd (createContext env (metadata ''channelToken'') w) = Inr ctx"
    and tt: "transitionToState env ctx (metadata ''orderId'') ''ArrangingPayment'' w
               = (Inr (TransitionedOrder ord), w1)"
    and gp: "snd (getPaymentMethod env ctx w1) = Inr pm"
    and ap: "addPaymentToOrder env ctx (metadata ''orderId'')
               \<lparr>pin_method = pm_code pm, pin_paymentIntentId = pi_id pi\<rparr> w1 = (res, w2)"
    by (rule attach_inversion)
  let ?pre = "[ConstructEvent (rawBody request) (js_str signature),
               GetChannelFromToken (metadata ''channelToken'')]"
  let ?tail = "drop 3 (effects (webhook env signature request w))"
  have "effects (webhook env signature request w) =
          ?pre @ TransitionToState ctx (metadata ''orderId'') ''ArrangingPayment'' # ?tail
        \<and> list_ex is_attach ?tail"
    by (simp add: webhook_attach [OF v s cc tt gp ap] Let_def returned_def threw_def
          split: sum.splits add_payment_result.splits)
  moreover have "\<not> list_ex is_attach ?pre" by simp
  ultimately show "\<exists>pre post ctx orderId ord w1.
         effects (webhook env signature request w) =
           pre @ TransitionToState ctx orderId ''ArrangingPayment'' # post
         \<and> \<not> list_ex is_attach pre \<and> list_ex is_attach post
         \<and> transitionToState env ctx orderId ''ArrangingPayment'' w
             = (Inr (TransitionedOrder ord), w1)"
    using tt by blast
next
  assume a: "verified env signature' request' ev paymentIntent metadata
        \<and> ev_type ev = ''payment_intent.succeeded''
        \<and> snd (createContext env (metadata ''channelToken'') w') = Inr ctx'
        \<and> transitionToState env ctx' (metadata ''orderId'')
              ''ArrangingPayment'' w' = (Inr (OrderStateTransitionError msg), w1')"
  then have r: "webhook env signature' request' w' =
     returned
       [ConstructEvent (rawBody request') (js_str signature'),
        GetChannelFromToken (metadata ''channelToken''),
        TransitionToState ctx' (metadata ''orderId'') ''ArrangingPayment'',
        Log LogError
          (''Error transitioning order '' @ js_str (metadata ''orderCode'')
             @ '' to ArrangingPayment state: '' @ msg)
          (loggerCtx env)]
       w1'"
    by (intro webhook_transition_error [where ev = ev and paymentIntent = paymentIntent]) simp_all
  show "effects (webhook env signature' request' w') =
        [ConstructEvent (rawBody request') (js_str signature'),
         GetChannelFromToken (metadata ''channelToken''),
         TransitionToState ctx' (metadata ''orderId'') ''ArrangingPayment'',
         Log LogError
           (''Error transitioning order '' @ js_str (metadata ''orderCode'')
              @ '' to ArrangingPayment state: '' @ msg)
           (loggerCtx env)]
      \<and> \<not> list_ex is_attach (effects (webhook env signature' request' w'))
      \<and> fault (webhook env signature' request' w') = None
      \<and> world (webhook env signature' request' w') = w1'"
    by (simp add: r returned_def)
qed

theorem C5_attach_only_after_transition_witness:
  "list_ex is_attach
     (effects (webhook shop_services (Some good_signature)
                 (delivery ''payment_intent.succeeded'') shop0))
   \<and> (\<exists>pre post ctx orderId ord w1.
         effects (webhook shop_services (Some good_signature)
                    (delivery ''payment_intent.succeeded'') shop0) =
           pre @ TransitionToState ctx orderId ''ArrangingPayment'' # post
         \<and> \<not> list_ex is_attach pre \<and> list_ex is_attach post
         \<and> transitionToState shop_services ctx orderId ''ArrangingPayment'' shop0
             = (Inr (TransitionedOrder ord), w1))
   \<and> verified shop_services (Some good_signature) (delivery ''payment_intent.succeeded'')
       (shop_event ''payment_intent.succeeded'') full_intent full_metadata
   \<and> snd (createContext shop_services (full_metadata ''channelToken'') shop_shipped)
       = Inr admin_context
   \<and> transitionToState shop_services admin_context (full_metadata ''orderId'')
       ''ArrangingPayment'' shop_shipped
       = (Inr (OrderStateTransitionError
                 ''Cannot transition Order from Shipped to ArrangingPayment''), shop_shipped)
   \<and> effects (webhook shop_services (Some good_signature)
                (delivery ''payment_intent.succeeded'') shop_shipped) =
       [ConstructEvent ''payment_intent.succeeded'' good_signature,
        GetChannelFromToken (Some ''t1''),
        TransitionToState admin_context (Some ''42'') ''ArrangingPayment'',
        Log LogError
          ''Error transitioning order ABC to ArrangingPayment state: Cannot transition Order from Shipped to ArrangingPayment''
          ''StripePlugin'']
   \<and> world (webhook shop_services (Some good_signature)
              (delivery ''payment_intent.succeeded'') shop_shipped) = shop_shipped"
proof -
  have a: "list_ex is_attach
     (effects (webhook shop_services (Some good_signature)
                 (delivery ''payment_intent.succeeded'') shop0))"
    by (simp add: controller_defs shop_defs)
  have v: "verified shop_services (Some good_signature) (delivery ''payment_intent.succeeded'')
       (shop_event ''payment_intent.succeeded'') full_intent full_metadata"
    by (simp add: verified_def metadata_of_def shop_defs)
  have t: "ev_type (shop_event ''payment_intent.succeeded'') = ''payment_intent.succeeded''"
    by (simp add: shop_event_def)
  have cc: "snd (createContext shop_services (full_metadata ''channelToken'')
                   shop_shipped) = Inr admin_context"
    by (simp add: controller_defs shop_defs)
  have tt: "transitionToState shop_services admin_context (full_metadata ''orderId'')
       ''ArrangingPayment'' shop_shipped
       = (Inr (OrderStateTransitionError
                 ''Cannot transition Order from Shipped to ArrangingPayment''), shop_shipped)"
    by (simp add: controller_defs shop_defs)
  from C5_attach_only_after_transition
         [of shop_services "Some good_signature" "delivery ''payment_intent.succeeded''" shop0
             "Some good_signature" "delivery ''payment_intent.succeeded''"
             "shop_event ''payment_intent.succeeded''" full_intent full_metadata shop_shipped
             admin_context
             "''Cannot transition Order from Shipped to ArrangingPayment''" shop_shipped]
       a v t cc tt
  show ?thesis
    by (simp add: full_metadata_def shop_metadata_def full_intent_def intent_def delivery_def
          good_signature_def shop_services_def)
qed

text \<open>
  C6. The run of the handler on a validly signed event of a type it does not know whose
  object has the metadata \<^verbatim>\<open>null\<close>: the destructuring of line 63 throws before the event
  type is looked at, so the \<^verbatim>\<open>TypeError\<close> leaves the handler right after the
  signature check, and the info-level log of an ignored event is not written.
\<close>

theorem C6_unknown_event_with_null_metadata_throws:
  "constructEventFromPayload shop_services ''invoice.created'' good_signature =
     Inr \<lparr>ev_type = ''invoice.created'',
          ev_object = Some (full_intent\<lparr>pi_metadata := MetadataNull\<rparr>)\<rparr>
   \<and> webhook shop_services (Some good_signature) (delivery ''invoice.created'') shop0 =
       threw [ConstructEvent ''invoice.created'' good_signature] TypeError shop0
   \<and> \<not> list_ex is_log
         (effects (webhook shop_services (Some good_signature)
                     (delivery ''invoice.created'') shop0))"
  by (simp add: controller_defs shop_defs)

text \<open>
  C7. A delivery without the signature header is rejected at once: the handler logs the
  missing-header message at error level, sends the response \<open>400\<close> (a \<open>4xx\<close> status)
  with that message, and does nothing else: it calls no service at all (not even the
  signature verification, which alone reads the secret and the payload), it throws
  nothing and it leaves the state of the services as it was.
\<close>

theorem C7_missing_signature_rejected:
  "effects (webhook env None request w) =
     [Log LogError ''Missing stripe-signature header'' (loggerCtx env),
      SendResponse BAD_REQUEST ''Missing stripe-signature header'']
   \<and> status_code BAD_REQUEST = 400
   \<and> \<not> list_ex is_service_call (effects (webhook env None request w))
   \<and> fault (webhook env None request w) = None
   \<and> world (webhook env None request w) = w"
  by (simp add: webhook_def returned_def missingHeaderErrorMessage_def)

text \<open>
  C8. When a succeeded event has reached the lookup of the payment method (the channel
  resolved and the transition returned an order) and none of the tenant's payment methods
  has the handler code of the Stripe handler, the handler throws an
  \<^verbatim>\<open>InternalServerError\<close>: the run ends with that exception right after the query of
  the payment methods, the payment is not attached, and nothing is logged, so the outcome
  is not one of the logged domain failures.
\<close>

theorem C8_missing_handler_is_thrown:
  assumes "verified env signature request ev paymentIntent metadata"
    and "ev_type ev = ''payment_intent.succeeded''"
    and "snd (createContext env (metadata ''channelToken'') w) = Inr ctx"
    and "transitionToState env ctx (metadata ''orderId'') ''ArrangingPayment'' w
           = (Inr (TransitionedOrder ord), w1)"
    and "findPaymentMethods env ctx w1 = Inr ms"
    and "filter (\<lambda>m. co_code (pm_handler m) = handlerCode env) ms = []"
  shows "fault (webhook env signature request w) =
           Some (InternalServerError
                   (''['' @ loggerCtx env @ ''] Could not find Stripe PaymentMethod''))
         \<and> effects (webhook env signature request w) =
             [ConstructEvent (rawBody request) (js_str signature),
              GetChannelFromToken (metadata ''channelToken''),
              TransitionToState ctx (metadata ''orderId'') ''ArrangingPayment'',
              FindPaymentMethods ctx]
         \<and> \<not> list_ex is_log (effects (webhook env signature request w))
         \<and> \<not> list_ex is_attach (effects (webhook env signature request w))
         \<and> world (webhook env signature request w) = w1"
proof -
  have "snd (getPaymentMethod env ctx w1) =
          Inl (InternalServerError
                 (''['' @ loggerCtx env @ ''] Could not find Stripe PaymentMethod''))"
    using assms(5,6) by (rule getPaymentMethod_none)
  from webhook_no_method [OF assms(1-4) this] show ?thesis
    by (simp add: threw_def)
qed

theorem C8_missing_handler_is_thrown_witness:
  "verified shop_services (Some good_signature) (delivery ''payment_intent.succeeded'')
     (shop_event ''payment_intent.succeeded'') full_intent full_metadata
   \<and> snd (createContext shop_services (full_metadata ''channelToken'')
            shop_unconfigured) = Inr admin_context
   \<and> transitionToState shop_services admin_context (full_metadata ''orderId'')
       ''ArrangingPayment'' shop_unconfigured
       = (Inr (TransitionedOrder ''ArrangingPayment''),
          shop_unconfigured\<lparr>order_state := ''ArrangingPayment''\<rparr>)
   \<and> findPaymentMethods shop_services admin_context
       (shop_unconfigured\<lparr>order_state := ''ArrangingPayment''\<rparr>) = Inr [other_method]
   \<and> filter (\<lambda>m. co_code (pm_handler m) = handlerCode shop_services) [other_method] = []
   \<and> fault (webhook shop_services (Some good_signature)
              (delivery ''payment_intent.succeeded'') shop_unconfigured) =
       Some (InternalServerError ''[StripePlugin] Could not find Stripe PaymentMethod'')
   \<and> effects (webhook shop_services (Some good_signature)
                (delivery ''payment_intent.succeeded'') shop_unconfigured) =
       [ConstructEvent ''payment_intent.succeeded'' good_signature,
        GetChannelFromToken (Some ''t1''),
        TransitionToState admin_context (Some ''42'') ''ArrangingPayment'',
        FindPaymentMethods admin_context]"
proof -
  have v: "verified shop_services (Some good_signature) (delivery ''payment_intent.succeeded'')
       (shop_event ''payment_intent.succeeded'') full_intent full_metadata"
    by (simp add: verified_def metadata_of_def shop_defs)
  have t: "ev_type (shop_event ''payment_intent.succeeded'') = ''payment_intent.succeeded''"
    by (simp add: shop_event_def)
  have cc: "snd (createContext shop_services (full_metadata ''channelToken'')
                   shop_unconfigured) = Inr admin_context"
    by (simp add: controller_defs shop_defs)
  have tt: "transitionToState shop_services admin_context (full_metadata ''orderId'')
       ''ArrangingPayment'' shop_unconfigured
       = (Inr (TransitionedOrder ''ArrangingPayment''),
          shop_unconfigured\<lparr>order_state := ''ArrangingPayment''\<rparr>)"
    by (simp add: controller_defs shop_defs)
  have fm: "findPaymentMethods shop_services admin_context
       (shop_unconfigured\<lparr>order_state := ''ArrangingPayment''\<rparr>) = Inr [other_method]"
    by (simp add: shop_defs)
  have no: "filter (\<lambda>m. co_code (pm_handler m) = handlerCode shop_services) [other_method] = []"
    by (simp add: shop_defs)
  from C8_missing_handler_is_thrown [OF v t cc tt fm no] v cc tt fm no show ?thesis
    by (simp add: full_metadata_def shop_metadata_def full_intent_def intent_def delivery_def
          good_signature_def shop_services_def)
qed

text \<open>
  C9. When \<^verbatim>\<open>addPaymentToOrder\<close> returns an error result, the handler logs the
  message of the error at error level and returns. That log is the last thing it does:
  there is no call of the order service after the attach call, and the only transition of
  the run is the one to \<open>ArrangingPayment\<close> made before it. Nothing is thrown, and the
  state of the services is the one the attach call left: nothing is rolled back.
\<close>

theorem C9_attach_error_is_logged_and_left:
  assumes "verified env signature request ev paymentIntent metadata"
    and "ev_type ev = ''payment_intent.succeeded''"
    and "snd (createContext env (metadata ''channelToken'') w) = Inr ctx"
    and "transitionToState env ctx (metadata ''orderId'') ''ArrangingPayment'' w
           = (Inr (TransitionedOrder ord), w1)"
    and "snd (getPaymentMethod env ctx w1) = Inr paymentMethod"
    and "addPaymentToOrder env ctx (metadata ''orderId'')
           \<lparr>pin_method = pm_code paymentMethod, pin_paymentIntentId = pi_id paymentIntent\<rparr> w1
           = (Inr (AddPaymentError msg), w2)"
  shows "effects (webhook env signature request w) =
           [ConstructEvent (rawBody request) (js_str signature),
            GetChannelFromToken (metadata ''channelToken''),
            TransitionToState ctx (metadata ''orderId'') ''ArrangingPayment'',
            FindPaymentMethods ctx,
            AddPaymentToOrder ctx (metadata ''orderId'')
              \<lparr>pin_method = pm_code paymentMethod, pin_paymentIntentId = pi_id paymentIntent\<rparr>,
            Log LogError
              (''Error adding payment to order ''
                 @ js_str (metadata ''orderCode'') @ '': '' @ msg)
              (loggerCtx env)]
         \<and> fault (webhook env signature request w) = None
         \<and> world (webhook env signature request w) = w2"
  by (simp add: webhook_attach [OF assms] returned_def)

theorem C9_attach_error_is_logged_and_left_witness:
  "verified shop_services (Some good_signature) (delivery ''payment_intent.succeeded'')
     (shop_event ''payment_intent.succeeded'') full_intent full_metadata
   \<and> snd (createContext shop_services (full_metadata ''channelToken'')
            shop_ineligible) = Inr admin_context
   \<and> transitionToState shop_services admin_context (full_metadata ''orderId'')
       ''ArrangingPayment'' shop_ineligible
       = (Inr (TransitionedOrder ''ArrangingPayment''),
          shop_ineligible\<lparr>order_state := ''ArrangingPayment''\<rparr>)
   \<and> snd (getPaymentMethod shop_services admin_context
            (shop_ineligible\<lparr>order_state := ''ArrangingPayment''\<rparr>)) = Inr stripe_method
   \<and> addPaymentToOrder shop_services admin_context (full_metadata ''orderId'')
       \<lparr>pin_method = pm_code stripe_method, pin_paymentIntentId = pi_id full_intent\<rparr>
       (shop_ineligible\<lparr>order_state := ''ArrangingPayment''\<rparr>)
       = (Inr (AddPaymentError ''The payment method is not eligible''),
          shop_ineligible\<lparr>order_state := ''ArrangingPayment''\<rparr>)
   \<and> effects (webhook shop_services (Some good_signature)
                (delivery ''payment_intent.succeeded'') shop_ineligible) =
       [ConstructEvent ''payment_intent.succeeded'' good_signature,
        GetChannelFromToken (Some ''t1''),
        TransitionToState admin_context (Some ''42'') ''ArrangingPayment'',
        FindPaymentMethods admin_context,
        AddPaymentToOrder admin_context (Some ''42'')
          \<lparr>pin_method = ''stripe-payment'', pin_paymentIntentId = ''pi_123''\<rparr>,
        Log LogError
          ''Error adding payment to order ABC: The payment method is not eligible''
          ''StripePlugin'']
   \<and> order_state (world (webhook shop_services (Some good_signature)
                (delivery ''payment_intent.succeeded'') shop_ineligible)) = ''ArrangingPayment''"
proof -
  have v: "verified shop_services (Some good_signature) (delivery ''payment_intent.succeeded'')
       (shop_event ''payment_intent.succeeded'') full_intent full_metadata"
    by (simp add: verified_def metadata_of_def shop_defs)
  have t: "ev_type (shop_event ''payment_intent.succeeded'') = ''payment_intent.succeeded''"
    by (simp add: shop_event_def)
  have cc: "snd (createContext shop_services (full_metadata ''channelToken'')
                   shop_ineligible) = Inr admin_context"
    by (simp add: controller_defs shop_defs)
  have tt: "transitionToState shop_services admin_context (full_metadata ''orderId'')
       ''ArrangingPayment'' shop_ineligible
       = (Inr (TransitionedOrder ''ArrangingPayment''),
          shop_ineligible\<lparr>order_state := ''ArrangingPayment''\<rparr>)"
    by (simp add: controller_defs shop_defs)
  have gp: "snd (getPaymentMethod shop_services admin_context
            (shop_ineligible\<lparr>order_state := ''ArrangingPayment''\<rparr>)) = Inr stripe_method"
    by (simp add: controller_defs shop_defs)
  have ap: "addPaymentToOrder shop_services admin_context (full_metadata ''orderId'')
       \<lparr>pin_method = pm_code stripe_method, pin_paymentIntentId = pi_id full_intent\<rparr>
       (shop_ineligible\<lparr>order_state := ''ArrangingPayment''\<rparr>)
       = (Inr (AddPaymentError ''The payment method is not eligible''),
          shop_ineligible\<lparr>order_state := ''ArrangingPayment''\<rparr>)"
    by (simp add: controller_defs shop_defs)
  from C9_attach_error_is_logged_and_left [OF v t cc tt gp ap] v cc tt gp ap show ?thesis
    by (simp add: full_metadata_def shop_metadata_def full_intent_def intent_def delivery_def
          good_signature_def shop_services_def stripe_method_def)
qed

text \<open>
  C10. The request context is the same for every delivery, except for the channel:
  whenever \<^verbatim>\<open>createContext\<close> returns, and whenever the handler hands a context to a
  service (the transition, the query of the payment methods, the attach), the context is
  \<open>apiType = admin\<close>, \<open>isAuthorized = true\<close>, \<open>authorizedAsOwnerOnly = false\<close>,
  language \<open>en\<close>, with the channel the token resolved to. It has no other field: nothing
  in it limits it to the two operations of the order service.
\<close>

theorem C10_context_is_admin:
  "(snd (createContext env token w) = Inr ctx \<longrightarrow>
      ctx = \<lparr>apiType = ''admin'', isAuthorized = True, authorizedAsOwnerOnly = False,
             channel = channel ctx, languageCode = ''en''\<rparr>
      \<and> getChannelFromToken env token w = Inr (channel ctx))
   \<and> (e \<in> set (effects (webhook env signature request w')) \<and> context_of e = Some ctx' \<longrightarrow>
      ctx' = \<lparr>apiType = ''admin'', isAuthorized = True, authorizedAsOwnerOnly = False,
              channel = channel ctx', languageCode = ''en''\<rparr>)"
proof (rule conjI; rule impI)
  assume "snd (createContext env token w) = Inr ctx"
  then show "ctx = \<lparr>apiType = ''admin'', isAuthorized = True, authorizedAsOwnerOnly = False,
             channel = channel ctx, languageCode = ''en''\<rparr>
      \<and> getChannelFromToken env token w = Inr (channel ctx)"
    by (auto simp: createContext_def split: sum.splits)
next
  assume a: "e \<in> set (effects (webhook env signature request w')) \<and> context_of e = Some ctx'"
  have adm: "c = \<lparr>apiType = ''admin'', isAuthorized = True, authorizedAsOwnerOnly = False,
                  channel = channel c, languageCode = ''en''\<rparr>"
    if "snd (createContext env tok w') = Inr c" for c tok
    using that by (auto simp: createContext_def split: sum.splits)
  show "ctx' = \<lparr>apiType = ''admin'', isAuthorized = True, authorizedAsOwnerOnly = False,
              channel = channel ctx', languageCode = ''en''\<rparr>"
  proof (cases rule: webhook_cases [where env = env and signature = signature
                                      and request = request and w = w'])
    case missing
    from a show ?thesis by (auto simp: webhook_missing [OF missing] returned_def)
  next
    case (mismatch e_message)
    from a show ?thesis by (auto simp: webhook_mismatch [OF mismatch] returned_def)
  next
    case (no_object ev)
    from a show ?thesis by (auto simp: webhook_no_object [OF no_object] returned_def)
  next
    case (null_metadata ev paymentIntent f)
    from a show ?thesis by (auto simp: webhook_null_metadata [OF null_metadata] threw_def)
  next
    case (failed ev paymentIntent metadata)
    from a show ?thesis by (auto simp: webhook_failed [OF failed] returned_def)
  next
    case (other ev paymentIntent metadata)
    from a show ?thesis by (auto simp: webhook_other [OF other] returned_def)
  next
    case (no_channel ev paymentIntent metadata f)
    from a show ?thesis by (auto simp: webhook_no_channel [OF no_channel] threw_def)
  next
    case (transition_threw ev paymentIntent metadata ctx f w1)
    from a adm [OF transition_threw(3)] show ?thesis
      by (auto simp: webhook_transition_threw [OF transition_threw] threw_def)
  next
    case (transition_error ev paymentIntent metadata ctx msg w1)
    from a adm [OF transition_error(3)] show ?thesis
      by (auto simp: webhook_transition_error [OF transition_error] returned_def)
  next
    case (no_method ev paymentIntent metadata ctx ord w1 f)
    from a adm [OF no_method(3)] show ?thesis
      by (auto simp: webhook_no_method [OF no_method] threw_def)
  next
    case (attach ev paymentIntent metadata ctx ord w1 paymentMethod res w2)
    from a adm [OF attach(3)] show ?thesis
      by (auto simp: webhook_attach [OF attach] threw_def returned_def Let_def
            split: sum.splits add_payment_result.splits)
  qed
qed

theorem C10_context_is_admin_witness:
  "snd (createContext shop_services (Some ''t1'') shop0) = Inr admin_context
   \<and> AddPaymentToOrder admin_context (Some ''42'')
        \<lparr>pin_method = ''stripe-payment'', pin_paymentIntentId = ''pi_123''\<rparr>
       \<in> set (effects (webhook shop_services (Some good_signature)
                         (delivery ''payment_intent.succeeded'') shop0))
   \<and> context_of (AddPaymentToOrder admin_context (Some ''42'')
        \<lparr>pin_method = ''stripe-payment'', pin_paymentIntentId = ''pi_123''\<rparr>) = Some admin_context
   \<and> admin_context =
       \<lparr>apiType = ''admin'', isAuthorized = True, authorizedAsOwnerOnly = False,
        channel = channel admin_context, languageCode = ''en''\<rparr>
   \<and> getChannelFromToken shop_services (Some ''t1'') shop0 = Inr (channel admin_context)"
proof -
  have cc: "snd (createContext shop_services (Some ''t1'') shop0) = Inr admin_context"
    by (simp add: controller_defs shop_defs)
  have m: "AddPaymentToOrder admin_context (Some ''42'')
        \<lparr>pin_method = ''stripe-payment'', pin_paymentIntentId = ''pi_123''\<rparr>
       \<in> set (effects (webhook shop_services (Some good_signature)
                         (delivery ''payment_intent.succeeded'') shop0))"
    by (simp add: controller_defs shop_defs)
  have c: "context_of (AddPaymentToOrder admin_context (Some ''42'')
        \<lparr>pin_method = ''stripe-payment'', pin_paymentIntentId = ''pi_123''\<rparr>) = Some admin_context"
    by simp
  from C10_context_is_admin
         [of shop_services "Some ''t1''" shop0 admin_context
             "AddPaymentToOrder admin_context (Some ''42'')
                \<lparr>pin_method = ''stripe-payment'', pin_paymentIntentId = ''pi_123''\<rparr>"
             "Some good_signature" "delivery ''payment_intent.succeeded''" shop0 admin_context]
       cc m c
  show ?thesis by simp
qed

end
